theory Spec2Isabelle
  imports Complex_Main "HOL-Library.List_Lexorder" "HOL-Library.Sublist"
begin

section \<open>Python strings\<close>

text \<open>
  A Python \<open>str\<close> is a sequence of Unicode code points; it is modelled as a list of
  natural numbers, one per code point, so that \<open>length\<close> counts what \<open>len\<close> counts and
  the lexicographic order on lists (\<open>HOL-Library.List_Lexorder\<close>) is the order Python's
  \<open>sorted\<close> uses on strings. The string literals of \<open>tool_executor.py\<close> are mostly
  Chinese; they are written out as their code points.
\<close>

type_synonym pystr = "nat list"

definition ascii :: "string \<Rightarrow> pystr" where
  "ascii s = map of_char s"

text \<open>\<open>sep.join(xs)\<close>\<close>

fun join :: "pystr \<Rightarrow> pystr list \<Rightarrow> pystr" where
  "join sep [] = []"
| "join sep [x] = x"
| "join sep (x # y # ys) = x @ sep @ join sep (y # ys)"

text \<open>\<open>str(n)\<close> for a non-negative integer: its decimal digits.\<close>

fun str_nat :: "nat \<Rightarrow> pystr" where
  "str_nat n = (if n < 10 then [48 + n] else str_nat (n div 10) @ [48 + n mod 10])"

section \<open>The pattern \<open>\b\d{6}\b\<close>\<close>

text \<open>
  The pattern is a \<open>str\<close> pattern compiled without flags, so \<open>\d\<close> and \<open>\w\<close> are the
  Unicode classes of the \<open>re\<close> module: \<open>\d\<close> is \<open>str.isdecimal\<close> (general category Nd)
  and \<open>\w\<close> is \<open>str.isalnum\<close> or the underscore. Below U+0080 both classes are fixed
  and written out. Beyond it they are rows of the Unicode character database of the
  interpreter, which is no part of this repository: the two tables are a parameter.
  A decimal digit is alphanumeric, so every \<open>\d\<close> character is a \<open>\w\<close> character.
\<close>

record unicode_db =
  uni_decimal :: "nat \<Rightarrow> bool"
  uni_alnum :: "nat \<Rightarrow> bool"

definition ascii_digit :: "nat \<Rightarrow> bool" where
  "ascii_digit c = (48 \<le> c \<and> c \<le> 57)"

definition re_digit :: "unicode_db \<Rightarrow> nat \<Rightarrow> bool" where
  "re_digit U c = (if c < 128 then ascii_digit c else uni_decimal U c)"

definition re_word :: "unicode_db \<Rightarrow> nat \<Rightarrow> bool" where
  "re_word U c =
     (if c < 128
      then ascii_digit c \<or> (65 \<le> c \<and> c \<le> 90) \<or> (97 \<le> c \<and> c \<le> 122) \<or> c = 95
      else uni_alnum U c \<or> uni_decimal U c)"

text \<open>
  \<open>\b\<close> holds between two neighbouring positions when exactly one of them holds a
  word character; the position before the start and the one after the end of the
  text (\<open>None\<close>) hold none.
\<close>

definition is_word :: "unicode_db \<Rightarrow> nat option \<Rightarrow> bool" where
  "is_word U p = (case p of None \<Rightarrow> False | Some c \<Rightarrow> re_word U c)"

definition boundary :: "unicode_db \<Rightarrow> nat option \<Rightarrow> nat option \<Rightarrow> bool" where
  "boundary U p n = (is_word U p \<noteq> is_word U n)"

definition first_char :: "pystr \<Rightarrow> nat option" where
  "first_char s = (case s of [] \<Rightarrow> None | c # _ \<Rightarrow> Some c)"

text \<open>
  Whether the pattern matches at the current position: \<open>prev\<close> is the character
  before it, \<open>s\<close> the text from it on. The pattern has no alternative and no variable
  repetition, so a match is the next six characters or nothing.
\<close>

definition match_here :: "unicode_db \<Rightarrow> nat option \<Rightarrow> pystr \<Rightarrow> bool" where
  "match_here U prev s =
     (boundary U prev (first_char s) \<and> 6 \<le> length s \<and> list_all (re_digit U) (take 6 s) \<and>
      boundary U (Some (s ! 5)) (first_char (drop 6 s)))"

text \<open>
  \<open>re.findall\<close>: the matches from left to right, without overlap. After a match
  the scan goes on behind it, otherwise one character further.
\<close>

function findall :: "unicode_db \<Rightarrow> nat option \<Rightarrow> pystr \<Rightarrow> pystr list" where
  "findall U prev [] = []"
| "findall U prev (c # cs) =
     (if match_here U prev (c # cs)
      then take 6 (c # cs) # findall U (Some ((c # cs) ! 5)) (drop 6 (c # cs))
      else findall U (Some c) cs)"
  by pat_completeness auto
termination
  by (relation "measure (\<lambda>(U, prev, s). length s)") auto

section \<open>The identifier extractors\<close>

text \<open>
  The value under a key of \<open>parameters\<close> is tested for being a \<open>list\<close> and is otherwise
  only passed to \<open>str\<close>. A list is represented by what \<open>str\<close> gives for each of its
  elements, any other value by what \<open>str\<close> gives for it. \<open>parameters\<close> itself is a
  \<open>dict\<close> or some other object.
\<close>

datatype pyval = PyList "pystr list" | PyScalar pystr

datatype pyparams = NotADict | Dict "pystr \<rightharpoonup> pyval"

definition stock_symbols_key :: pystr where
  "stock_symbols_key = ascii ''stock_symbols''"

definition fund_symbols_key :: pystr where
  "fund_symbols_key = ascii ''fund_symbols''"

text \<open>\<open>isinstance(parameters, dict) and key in parameters\<close>, with the value.\<close>

definition param_value :: "pyparams \<Rightarrow> pystr \<Rightarrow> pyval option" where
  "param_value parameters key = (case parameters of NotADict \<Rightarrow> None | Dict d \<Rightarrow> d key)"

definition extract_stock_symbols :: "unicode_db \<Rightarrow> pyparams \<Rightarrow> pystr \<Rightarrow> pystr list" where
  "extract_stock_symbols U parameters step_content =
     (let candidates =
            (case param_value parameters stock_symbols_key of
               None \<Rightarrow> []
             | Some (PyList codes) \<Rightarrow> codes
             | Some (PyScalar v) \<Rightarrow> [v]);
          candidates =
            (if candidates = [] \<and> step_content \<noteq> [] then candidates @ [step_content]
             else candidates);
          valid_codes = remdups (findall U None (join (ascii '','') candidates))
      in sort valid_codes)"

definition extract_fund_symbols :: "unicode_db \<Rightarrow> pyparams \<Rightarrow> pystr \<Rightarrow> pystr list" where
  "extract_fund_symbols U parameters step_content =
     (let candidates =
            (case param_value parameters fund_symbols_key of
               None \<Rightarrow> []
             | Some (PyList codes) \<Rightarrow> codes
             | Some (PyScalar v) \<Rightarrow> [v]);
          candidates =
            (if candidates = [] \<and> step_content \<noteq> [] then candidates @ [step_content]
             else candidates);
          valid_codes = remdups (findall U None (join (ascii '','') candidates))
      in sort valid_codes)"

section \<open>Exceptions, events and the collaborators\<close>

text \<open>
  A raised exception is carried as the text \<open>str(e)\<close> and by its place in the class
  hierarchy: \<open>PyException\<close> is an instance of \<open>Exception\<close>, the class every \<open>except\<close>
  clause of the module names; \<open>PyBaseException\<close> is an instance of \<open>BaseException\<close> that is
  none of \<open>Exception\<close> (\<open>SystemExit\<close>, \<open>KeyboardInterrupt\<close>, \<open>GeneratorExit\<close>, the control
  exceptions of Streamlit). A computation that may raise returns \<open>exn + 'a\<close>, with \<open>Inl\<close>
  for the raise.
\<close>

datatype exn = is_Exception: PyException (str_of: pystr) | PyBaseException (str_of: pystr)

text \<open>
  What \<open>try: ... except Exception\<close> lets through of an outcome: the raise that is no
  instance of \<open>Exception\<close>.
\<close>

definition uncaught :: "exn + 'a \<Rightarrow> exn option" where
  "uncaught outcome =
     (case outcome of
        Inl e \<Rightarrow> (if is_Exception e then None else Some e)
      | Inr _ \<Rightarrow> None)"

text \<open>
  One call of \<open>run_stock_analysis\<close>, with its keyword arguments.
\<close>

record stock_call =
  stock_symbol :: pystr
  analysis_date :: pystr
  analysts :: "pystr list"
  research_depth :: nat
  llm_provider :: pystr
  llm_model :: pystr
  market_type :: pystr

text \<open>
  What the outside world sees of a run, in order: a call of the progress callback with
  its message and fraction, a call of one of the two analysis functions, and the
  dispatcher calling the handler registered under a name.
\<close>

datatype event =
    Progress pystr rat
  | StockAnalysis stock_call
  | FundAnalysis pystr
  | Invoke pystr

text \<open>
  The result of \<open>run_stock_analysis\<close> is a dict, of which the handler reads the keys
  \<open>state\<close> and \<open>decision\<close>, both dicts again when present; their values are represented
  by the text an f-string gives for them.
\<close>

record analysis_result =
  state :: "(pystr \<rightharpoonup> pystr) option"
  decision :: "(pystr \<rightharpoonup> pystr) option"

text \<open>
  The surroundings of a call: the date \<open>str(datetime.date.today())\<close>, the attribute
  \<open>st.session_state.llm_config\<close> (a dict, or the read raises), and the two analysis
  functions, each raising or returning. \<open>run_fund_analysis\<close> is defined in the module
  from calls of the data provider and the language model only, and returns the
  model's text.
\<close>

record env =
  today :: pystr
  llm_config :: "exn + (pystr \<rightharpoonup> pystr)"
  run_stock_analysis :: "stock_call \<Rightarrow> exn + analysis_result"
  run_fund_analysis :: "pystr \<Rightarrow> exn + pystr"

text \<open>
  The progress callback takes the message and the fraction; it returns, or it raises.
  The fraction \<open>i / total\<close> is a float in the source and the exact quotient here.
\<close>

type_synonym callback = "pystr \<Rightarrow> rat \<Rightarrow> exn option"

text \<open>\<open>if progress_callback: progress_callback(message, progress)\<close>\<close>

definition notify :: "callback option \<Rightarrow> pystr \<Rightarrow> rat \<Rightarrow> event list \<times> exn option" where
  "notify progress_callback message progress =
     (case progress_callback of
        None \<Rightarrow> ([], None)
      | Some cb \<Rightarrow> ([Progress message progress], cb message progress))"

text \<open>\<open>d.get(key, default)\<close>\<close>

definition dict_get :: "(pystr \<rightharpoonup> pystr) \<Rightarrow> pystr \<Rightarrow> pystr \<Rightarrow> pystr" where
  "dict_get d key dflt = (case d key of None \<Rightarrow> dflt | Some v \<Rightarrow> v)"

section \<open>String constants of the module\<close>

text \<open>The two display names of the registry: the stock tool and the fund tool.\<close>

definition stock_tool_name :: pystr where
  "stock_tool_name = [20010, 32929, 32929, 31080, 20998, 26512, 24037, 20855]"

definition fund_tool_name :: pystr where
  "fund_tool_name = [22522, 37329, 20998, 26512, 24037, 20855]"

text \<open>The placeholders of the metadata: no description, type unspecified, required.\<close>

definition no_description :: pystr where
  "no_description = [26080, 25551, 36848]"

definition unspecified :: pystr where
  "unspecified = [26410, 25351, 23450]"

definition required :: pystr where
  "required = [24517, 22635]"

text \<open>
  The message for an unknown tool: a prefix, the name between single quotes, and a
  middle part that ends by announcing the available tools.
\<close>

definition unknown_tool_prefix :: pystr where
  "unknown_tool_prefix = [38169, 35823, 65306, 26410, 30693, 24037, 20855, 32, 39]"

definition unknown_tool_middle :: pystr where
  "unknown_tool_middle =
     [39, 65292, 26080, 27861, 25191, 34892, 12290, 21487, 29992, 24037, 20855, 65306]"

text \<open>The message for a handler that raised: a prefix, the name, and a middle part.\<close>

definition handler_error_prefix :: pystr where
  "handler_error_prefix = [25191, 34892, 24037, 20855, 32, 39]"

definition handler_error_middle :: pystr where
  "handler_error_middle = [39, 32, 26102, 21457, 29983, 38169, 35823, 58, 32]"

text \<open>The two messages for an extraction that found no code.\<close>

definition no_stock_symbols :: pystr where
  "no_stock_symbols =
     [38169, 35823, 65306, 26410, 25214, 21040, 26377, 25928, 30340, 65, 32929, 32929,
      31080, 20195, 30721, 65288, 38656, 20026, 54, 20301, 25968, 23383, 65289, 65292,
      26080, 27861, 25191, 34892, 20998, 26512, 12290]"

definition no_fund_symbols :: pystr where
  "no_fund_symbols =
     [38169, 35823, 65306, 26410, 25214, 21040, 26377, 25928, 30340, 22522, 37329, 20195,
      30721, 65288, 38656, 20026, 54, 20301, 25968, 23383, 65289, 65292, 26080, 27861,
      25191, 34892, 20998, 26512, 12290]"

text \<open>
  The progress message is a label, the code, and \<open>i/total\<close> between fullwidth
  parentheses (U+FF08, U+FF09); \<open>n\<close> stands for \<open>total\<close>.
\<close>

definition stock_progress_label :: pystr where
  "stock_progress_label = [27491, 22312, 20998, 26512, 32929, 31080, 32]"

definition fund_progress_label :: pystr where
  "fund_progress_label = [27491, 22312, 20998, 26512, 22522, 37329, 32]"

definition progress_message :: "pystr \<Rightarrow> pystr \<Rightarrow> nat \<Rightarrow> nat \<Rightarrow> pystr" where
  "progress_message label code i n =
     label @ code @ [65288] @ str_nat i @ ascii ''/'' @ str_nat n @ [65289]"

text \<open>
  A fragment starts with a heading (three hashes, the section title, a colon and a
  space), followed by the code and a line feed. A failure is reported after a fixed
  prefix; an empty body is replaced by the placeholder for no result.
\<close>

definition stock_heading :: pystr where
  "stock_heading = [35, 35, 35, 32, 20010, 32929, 20998, 26512, 58, 32]"

definition fund_heading :: pystr where
  "fund_heading = [35, 35, 35, 32, 22522, 37329, 20998, 26512, 58, 32]"

definition analysis_failed :: pystr where
  "analysis_failed = [20998, 26512, 22833, 36133, 65306]"

definition decision_heading :: pystr where
  "decision_heading = [35, 35, 35, 35, 32, 26680, 24515, 20915, 31574, 32467, 35770, 10]"

definition no_result :: pystr where
  "no_result = [26080, 20998, 26512, 32467, 26524]"

definition a_share :: pystr where
  "a_share = [65, 32929]"

definition blank_line :: pystr where
  "blank_line = [10, 10]"

section \<open>The stock tool\<close>

text \<open>
  \<open>report_type.replace('_', ' ').title()\<close> is applied to four ASCII literals only:
  \<open>replace_char\<close> replaces one character by another, and \<open>title_from\<close> is \<open>str.title\<close>
  on ASCII letters (a letter is put in upper case when the character before it is no
  letter, in lower case otherwise; the flag says whether the character before is one).
\<close>

definition replace_char :: "nat \<Rightarrow> nat \<Rightarrow> pystr \<Rightarrow> pystr" where
  "replace_char a b s = map (\<lambda>c. if c = a then b else c) s"

fun title_from :: "bool \<Rightarrow> pystr \<Rightarrow> pystr" where
  "title_from after_letter [] = []"
| "title_from after_letter (c # cs) =
     (if 97 \<le> c \<and> c \<le> 122 then (if after_letter then c else c - 32) # title_from True cs
      else if 65 \<le> c \<and> c \<le> 90 then (if after_letter then c + 32 else c) # title_from True cs
      else c # title_from False cs)"

definition report_types :: "pystr list" where
  "report_types =
     [ascii ''market_report'', ascii ''fundamentals_report'',
      ascii ''sentiment_report'', ascii ''news_report'']"

definition report_section :: "pystr \<Rightarrow> pystr \<Rightarrow> pystr" where
  "report_section report_type body =
     ascii ''#### '' @ title_from False (replace_char 95 32 report_type) @ [10] @ body"

definition raw_reports_of :: "analysis_result \<Rightarrow> pystr list" where
  "raw_reports_of analysis_result =
     (case state analysis_result of
        None \<Rightarrow> []
      | Some st \<Rightarrow>
          concat (map (\<lambda>report_type.
                         case st report_type of
                           None \<Rightarrow> []
                         | Some body \<Rightarrow> [report_section report_type body])
                      report_types))"

definition decision_reasoning_of :: "analysis_result \<Rightarrow> pystr" where
  "decision_reasoning_of analysis_result =
     (case decision analysis_result of
        None \<Rightarrow> []
      | Some d \<Rightarrow>
          (case d (ascii ''reasoning'') of
             None \<Rightarrow> []
           | Some reasoning \<Rightarrow> decision_heading @ reasoning))"

definition full_raw_report :: "analysis_result \<Rightarrow> pystr" where
  "full_raw_report analysis_result =
     join blank_line (raw_reports_of analysis_result @ [decision_reasoning_of analysis_result])"

text \<open>
  The fragment appended to \<open>all_analysis\<close> for one code, by the outcome of its analysis:
  the one of the \<open>except\<close> clause for a raise, the one of the report for a result.
\<close>

definition stock_fragment :: "pystr \<Rightarrow> exn + analysis_result \<Rightarrow> pystr" where
  "stock_fragment code outcome =
     (case outcome of
        Inl e \<Rightarrow> stock_heading @ code @ [10] @ analysis_failed @ str_of e
      | Inr analysis_result \<Rightarrow>
          stock_heading @ code @ [10] @
            (if full_raw_report analysis_result \<noteq> [] then full_raw_report analysis_result
             else no_result))"

definition stock_call_for :: "env \<Rightarrow> pystr \<Rightarrow> pystr \<Rightarrow> pystr \<Rightarrow> stock_call" where
  "stock_call_for E provider model code =
     \<lparr>stock_symbol = code, analysis_date = today E, analysts = [ascii ''fundamentals''],
      research_depth = 1, llm_provider = provider, llm_model = model, market_type = a_share\<rparr>"

text \<open>
  The loop \<open>for i, code in enumerate(stock_symbols, 1)\<close> over the numbered codes, \<open>n\<close>
  being \<open>total\<close>. The callback is called outside the \<open>try\<close>: when it raises, the loop
  and the handler end with its exception. The analysis is called inside
  \<open>try: ... except Exception\<close>: a raise that this does not catch ends the loop and the
  handler as well; any other outcome gives a fragment. The result is the trace and
  \<open>all_analysis\<close>.
\<close>

fun stock_loop ::
  "env \<Rightarrow> pystr \<Rightarrow> pystr \<Rightarrow> callback option \<Rightarrow> nat \<Rightarrow> (nat \<times> pystr) list \<Rightarrow>
   event list \<times> (exn + pystr list)" where
  "stock_loop E provider model progress_callback n [] = ([], Inr [])"
| "stock_loop E provider model progress_callback n ((i, code) # rest) =
     (case notify progress_callback (progress_message stock_progress_label code i n)
             (of_nat i / of_nat n) of
        (ev, Some e) \<Rightarrow> (ev, Inl e)
      | (ev, None) \<Rightarrow>
          (let call = stock_call_for E provider model code;
               outcome = run_stock_analysis E call
           in case uncaught outcome of
                Some e \<Rightarrow> (ev @ [StockAnalysis call], Inl e)
              | None \<Rightarrow>
                  (let fragment = stock_fragment code outcome
                   in case stock_loop E provider model progress_callback n rest of
                        (tr, Inl e) \<Rightarrow> (ev @ StockAnalysis call # tr, Inl e)
                      | (tr, Inr all_analysis) \<Rightarrow>
                          (ev @ StockAnalysis call # tr, Inr (fragment # all_analysis)))))"

definition execute_stock_analysis_tool ::
  "unicode_db \<Rightarrow> env \<Rightarrow> pyparams \<Rightarrow> pystr \<Rightarrow> callback option \<Rightarrow> event list \<times> (exn + pystr)" where
  "execute_stock_analysis_tool U E parameters step_content progress_callback =
     (let stock_symbols = extract_stock_symbols U parameters step_content in
      if stock_symbols = [] then ([], Inr no_stock_symbols)
      else
        (case llm_config E of
           Inl e \<Rightarrow> ([], Inl e)
         | Inr config \<Rightarrow>
             (let provider = dict_get config (ascii ''llm_provider'') (ascii ''dashscope'');
                  model = dict_get config (ascii ''llm_model'') (ascii ''qwen-plus'')
              in case stock_loop E provider model progress_callback (length stock_symbols)
                        (enumerate 1 stock_symbols) of
                   (tr, Inl e) \<Rightarrow> (tr, Inl e)
                 | (tr, Inr all_analysis) \<Rightarrow> (tr, Inr (join blank_line all_analysis)))))"

section \<open>The fund tool\<close>

definition fund_fragment :: "pystr \<Rightarrow> exn + pystr \<Rightarrow> pystr" where
  "fund_fragment code outcome =
     (case outcome of
        Inl e \<Rightarrow> fund_heading @ code @ [10] @ analysis_failed @ str_of e
      | Inr analysis_result \<Rightarrow>
          fund_heading @ code @ [10] @
            (if analysis_result \<noteq> [] then analysis_result else no_result))"

fun fund_loop ::
  "env \<Rightarrow> callback option \<Rightarrow> nat \<Rightarrow> (nat \<times> pystr) list \<Rightarrow> event list \<times> (exn + pystr list)" where
  "fund_loop E progress_callback n [] = ([], Inr [])"
| "fund_loop E progress_callback n ((i, code) # rest) =
     (case notify progress_callback (progress_message fund_progress_label code i n)
             (of_nat i / of_nat n) of
        (ev, Some e) \<Rightarrow> (ev, Inl e)
      | (ev, None) \<Rightarrow>
          (let outcome = run_fund_analysis E code
           in case uncaught outcome of
                Some e \<Rightarrow> (ev @ [FundAnalysis code], Inl e)
              | None \<Rightarrow>
                  (let fragment = fund_fragment code outcome
                   in case fund_loop E progress_callback n rest of
                        (tr, Inl e) \<Rightarrow> (ev @ FundAnalysis code # tr, Inl e)
                      | (tr, Inr all_analysis) \<Rightarrow>
                          (ev @ FundAnalysis code # tr, Inr (fragment # all_analysis)))))"

definition execute_fund_analysis_tool ::
  "unicode_db \<Rightarrow> env \<Rightarrow> pyparams \<Rightarrow> pystr \<Rightarrow> callback option \<Rightarrow> event list \<times> (exn + pystr)" where
  "execute_fund_analysis_tool U E parameters step_content progress_callback =
     (let fund_symbols = extract_fund_symbols U parameters step_content in
      if fund_symbols = [] then ([], Inr no_fund_symbols)
      else
        (case llm_config E of
           Inl e \<Rightarrow> ([], Inl e)
         | Inr config \<Rightarrow>
             (case fund_loop E progress_callback (length fund_symbols)
                     (enumerate 1 fund_symbols) of
                (tr, Inl e) \<Rightarrow> (tr, Inl e)
              | (tr, Inr all_analysis) \<Rightarrow> (tr, Inr (join blank_line all_analysis)))))"

section \<open>The registry and the dispatcher\<close>

text \<open>
  A handler takes the parameters, the step text and the optional callback. The
  registry \<open>self.tools\<close> is a dict from display names to handlers; it keeps the order
  of insertion and is modelled as an association list.
\<close>

type_synonym handler =
  "pyparams \<Rightarrow> pystr \<Rightarrow> callback option \<Rightarrow> event list \<times> (exn + pystr)"

definition tools :: "unicode_db \<Rightarrow> env \<Rightarrow> (pystr \<times> handler) list" where
  "tools U E =
     [(stock_tool_name, execute_stock_analysis_tool U E),
      (fund_tool_name, execute_fund_analysis_tool U E)]"

definition get_available_tools :: "(pystr \<times> handler) list \<Rightarrow> pystr list" where
  "get_available_tools registry = map fst registry"

definition execute ::
  "(pystr \<times> handler) list \<Rightarrow> pystr \<Rightarrow> pyparams \<Rightarrow> pystr \<Rightarrow> callback option \<Rightarrow>
   event list \<times> (exn + pystr)" where
  "execute registry tool_name parameters step_content progress_callback =
     (case map_of registry tool_name of
        None \<Rightarrow>
          ([], Inr (unknown_tool_prefix @ tool_name @ unknown_tool_middle @
                    join (ascii '', '') (get_available_tools registry)))
      | Some tool \<Rightarrow>
          (case tool parameters step_content progress_callback of
             (tr, Inr report) \<Rightarrow> (Invoke tool_name # tr, Inr report)
           | (tr, Inl e) \<Rightarrow>
               (if is_Exception e
                then (Invoke tool_name # tr,
                      Inr (handler_error_prefix @ tool_name @ handler_error_middle @ str_of e))
                else (Invoke tool_name # tr, Inl e))))"

section \<open>Tool metadata\<close>

text \<open>
  What \<open>get_tool_metadata\<close> reads of a function: its \<open>__name__\<close>; of its parsed
  docstring the short description and the entries of the argument section; of its
  signature the parameters in declaration order, each with its annotation and its
  default. An annotation is absent (\<open>Parameter.empty\<close>), has a \<open>__name__\<close>, or has
  none, in which case reading the attribute raises. A default is some constant.
\<close>

datatype pyobj = PyNone | PyStr pystr | PyInt int | PyBool bool

datatype annotation = NoAnnotation | Named pystr | Unnamed exn

record signature_param =
  param_name :: pystr
  param_annotation :: annotation
  param_default :: "pyobj option"

record doc_param =
  arg_name :: pystr
  description :: "pystr option"

record py_function =
  func_name :: pystr
  short_description :: "pystr option"
  doc_params :: "doc_param list"
  sig_params :: "signature_param list"

record param_info =
  info_name :: pystr
  info_type :: pystr
  info_default :: pyobj
  info_description :: pystr

record tool_metadata =
  meta_name :: pystr
  meta_description :: pystr
  meta_parameters :: "param_info list"

text \<open>\<open>x or placeholder\<close> for an optional string: \<open>None\<close> and the empty string are falsy.\<close>

definition or_else :: "pystr option \<Rightarrow> pystr \<Rightarrow> pystr" where
  "or_else x placeholder = (case x of None \<Rightarrow> placeholder | Some s \<Rightarrow> if s = [] then placeholder else s)"

definition param_type_of :: "annotation \<Rightarrow> exn + pystr" where
  "param_type_of a =
     (case a of NoAnnotation \<Rightarrow> Inr unspecified | Named n \<Rightarrow> Inr n | Unnamed e \<Rightarrow> Inl e)"

definition default_value_of :: "pyobj option \<Rightarrow> pyobj" where
  "default_value_of d = (case d of None \<Rightarrow> PyStr required | Some v \<Rightarrow> v)"

text \<open>
  The inner loop over \<open>parsed_doc.params\<close>: \<open>param_desc\<close> starts as the empty string
  and is set, at the first entry with the parameter's name, from that entry.
\<close>

fun param_desc_of :: "doc_param list \<Rightarrow> pystr \<Rightarrow> pystr" where
  "param_desc_of [] name = []"
| "param_desc_of (doc_param # rest) name =
     (if arg_name doc_param = name then or_else (description doc_param) no_description
      else param_desc_of rest name)"

fun parameters_of :: "doc_param list \<Rightarrow> signature_param list \<Rightarrow> exn + param_info list" where
  "parameters_of doc [] = Inr []"
| "parameters_of doc (param # rest) =
     (case param_type_of (param_annotation param) of
        Inl e \<Rightarrow> Inl e
      | Inr param_type \<Rightarrow>
          (case parameters_of doc rest of
             Inl e \<Rightarrow> Inl e
           | Inr infos \<Rightarrow>
               Inr (\<lparr>info_name = param_name param, info_type = param_type,
                     info_default = default_value_of (param_default param),
                     info_description = param_desc_of doc (param_name param)\<rparr> # infos)))"

definition get_tool_metadata :: "py_function \<Rightarrow> exn + tool_metadata" where
  "get_tool_metadata tool_func =
     (case parameters_of (doc_params tool_func) (sig_params tool_func) of
        Inl e \<Rightarrow> Inl e
      | Inr parameters \<Rightarrow>
          Inr \<lparr>meta_name = func_name tool_func,
               meta_description = or_else (short_description tool_func) no_description,
               meta_parameters = parameters\<rparr>)"

section \<open>Vocabulary of the statements\<close>

text \<open>
  The text the pattern is applied to, by the value found under the key (if any) and
  the step text: the candidates joined with a comma.
\<close>

definition value_strings :: "pyval \<Rightarrow> pystr list" where
  "value_strings v = (case v of PyList codes \<Rightarrow> codes | PyScalar x \<Rightarrow> [x])"

definition scanned_text :: "pyval option \<Rightarrow> pystr \<Rightarrow> pystr" where
  "scanned_text v step_content =
     join (ascii '','')
       (case v of
          None \<Rightarrow> (if step_content \<noteq> [] then [step_content] else [])
        | Some x \<Rightarrow>
            (if value_strings x = [] \<and> step_content \<noteq> [] then [step_content]
             else value_strings x))"

text \<open>
  \<open>x\<close> stands in the text \<open>t\<close> between characters that are no word characters (and so no
  digits), or at an end of \<open>t\<close>.
\<close>

definition delimited_in :: "unicode_db \<Rightarrow> pystr \<Rightarrow> pystr \<Rightarrow> bool" where
  "delimited_in U x t =
     (\<exists>pre post. t = pre @ x @ post \<and>
        (pre = [] \<or> (\<not> re_word U (last pre) \<and> \<not> re_digit U (last pre))) \<and>
        (post = [] \<or> (\<not> re_word U (hd post) \<and> \<not> re_digit U (hd post))))"

text \<open>
  A list of codes found in \<open>t\<close>: pairwise distinct, ascending, each of six characters
  of the class \<open>\d\<close> (which are ASCII digits where they are ASCII at all), delimited
  in \<open>t\<close>.
\<close>

definition wellformed_codes :: "unicode_db \<Rightarrow> pystr \<Rightarrow> pystr list \<Rightarrow> bool" where
  "wellformed_codes U t codes =
     (distinct codes \<and> sorted codes \<and>
      (\<forall>x \<in> set codes.
         length x = 6 \<and> (\<forall>c \<in> set x. re_digit U c \<and> (c < 128 \<longrightarrow> ascii_digit c)) \<and>
         delimited_in U x t))"









text \<open>
  The report sections present in the state of a result, in the fixed order, and
  whether the result has a decision with a reasoning.
\<close>

definition present_sections :: "analysis_result \<Rightarrow> pystr list" where
  "present_sections r =
     (case state r of
        None \<Rightarrow> []
      | Some st \<Rightarrow>
          map (\<lambda>report_type. report_section report_type (the (st report_type)))
            (filter (\<lambda>report_type. st report_type \<noteq> None) report_types))"

definition has_reasoning :: "analysis_result \<Rightarrow> bool" where
  "has_reasoning r =
     (case decision r of None \<Rightarrow> False | Some d \<Rightarrow> d (ascii ''reasoning'') \<noteq> None)"

definition reasoning_block :: "analysis_result \<Rightarrow> pystr" where
  "reasoning_block r = decision_heading @ the (the (decision r) (ascii ''reasoning''))"

section \<open>Data of the examples\<close>

text \<open>
  Two rows of the Unicode character database, the same in every version of it: the
  fullwidth digits U+FF10 to U+FF19 are decimal digits, and the ideographs U+4E00 to
  U+9FA5 are alphanumeric. The examples consult no other row beyond U+007F.
\<close>

definition db_excerpt :: unicode_db where
  "db_excerpt =
     \<lparr>uni_decimal = (\<lambda>c. 65296 \<le> c \<and> c \<le> 65305),
      uni_alnum = (\<lambda>c. 19968 \<le> c \<and> c \<le> 40869)\<rparr>"

text \<open>
  Surroundings in which the analysis of 600000 (and of the fund 290012) raises and
  every other analysis succeeds, the stock analysis with a market report only.
\<close>

definition sample_env :: env where
  "sample_env =
     \<lparr>today = ascii ''2025-01-01'',
      llm_config = Inr Map.empty,
      run_stock_analysis =
        (\<lambda>call. if stock_symbol call = ascii ''600000'' then Inl (PyException (ascii ''timeout''))
                else Inr \<lparr>state = Some [ascii ''market_report'' \<mapsto> ascii ''up''],
                          decision = None\<rparr>),
      run_fund_analysis =
        (\<lambda>code. if code = ascii ''290012'' then Inl (PyException (ascii ''timeout''))
                else Inr (ascii ''steady''))\<rparr>"




text \<open>A callback that returns, and a function documented without an argument section.\<close>

definition quiet_callback :: callback where
  "quiet_callback message progress = None"

definition undocumented_function :: py_function where
  "undocumented_function =
     \<lparr>func_name = ascii ''f'', short_description = Some (ascii ''Summary.''),
      doc_params = [],
      sig_params = [\<lparr>param_name = ascii ''x'', param_annotation = NoAnnotation,
                     param_default = None\<rparr>]\<rparr>"

section \<open>Lemmas\<close>

lemmas re_simps = match_here_def boundary_def is_word_def first_char_def re_word_def
  re_digit_def ascii_digit_def db_excerpt_def
lemmas extract_simps = extract_stock_symbols_def extract_fund_symbols_def param_value_def
  stock_symbols_key_def fund_symbols_key_def ascii_def

lemma re_digit_word: "re_digit U c \<Longrightarrow> re_word U c"
  by (simp add: re_digit_def re_word_def split: if_splits)

lemma re_digit_ascii: "re_digit U c \<Longrightarrow> c < 128 \<Longrightarrow> ascii_digit c"
  by (simp add: re_digit_def)

lemma match_here_digits:
  assumes "match_here U prev s"
  shows "length (take 6 s) = 6" and "list_all (re_digit U) (take 6 s)"
    and "re_digit U (hd s)" and "re_digit U (s ! 5)"
proof -
  from assms have len: "6 \<le> length s" and dig: "list_all (re_digit U) (take 6 s)"
    by (simp_all add: match_here_def)
  show "length (take 6 s) = 6" using len by simp
  show "list_all (re_digit U) (take 6 s)" by (rule dig)
  have "\<forall>i<6. re_digit U (s ! i)"
    using dig len by (simp add: list_all_length)
  then have "re_digit U (s ! 0)" and "re_digit U (s ! 5)" by simp_all
  moreover have "s \<noteq> []" using len by auto
  ultimately show "re_digit U (hd s)" and "re_digit U (s ! 5)"
    by (simp_all add: hd_conv_nth)
qed

lemma match_here_boundaries:
  assumes "match_here U prev s"
  shows "\<not> is_word U prev" and "\<not> is_word U (first_char (drop 6 s))"
proof -
  from assms have b1: "boundary U prev (first_char s)"
    and b2: "boundary U (Some (s ! 5)) (first_char (drop 6 s))"
    and len: "6 \<le> length s"
    by (simp_all add: match_here_def)
  from len obtain c cs where s: "s = c # cs" by (cases s) auto
  have "is_word U (first_char s)"
    using match_here_digits(3)[OF assms] s by (simp add: first_char_def is_word_def re_digit_word)
  with b1 show "\<not> is_word U prev" by (simp add: boundary_def)
  have "is_word U (Some (s ! 5))"
    using match_here_digits(4)[OF assms] by (simp add: is_word_def re_digit_word)
  with b2 show "\<not> is_word U (first_char (drop 6 s))" by (simp add: boundary_def)
qed

lemma findall_elems:
  "x \<in> set (findall U prev s) \<Longrightarrow> length x = 6 \<and> list_all (re_digit U) x"
proof (induction U prev s rule: findall.induct)
  case (1 U prev)
  then show ?case by simp
next
  case (2 U prev c cs)
  show ?case
  proof (cases "match_here U prev (c # cs)")
    case True
    with 2(3) have "x = take 6 (c # cs) \<or> x \<in> set (findall U (Some ((c # cs) ! 5)) (drop 6 (c # cs)))"
      by (simp del: take_Suc_Cons drop_Suc_Cons nth_Cons_numeral)
    then show ?thesis
      using match_here_digits(1,2)[OF True] 2(1)[OF True] by blast
  next
    case False
    with 2(3) have "x \<in> set (findall U (Some c) cs)" by simp
    then show ?thesis using 2(2)[OF False] by blast
  qed
qed

lemma findall_occurs:
  "x \<in> set (findall U prev s) \<Longrightarrow>
     \<exists>pre post. s = pre @ x @ post \<and>
        \<not> is_word U (if pre = [] then prev else Some (last pre)) \<and>
        \<not> is_word U (first_char post)"
proof (induction U prev s rule: findall.induct)
  case (1 U prev)
  then show ?case by simp
next
  case (2 U prev c cs)
  let ?s = "c # cs"
  show ?case
  proof (cases "match_here U prev ?s")
    case True
    have w2: "is_word U (Some (?s ! 5))"
      using match_here_digits(4)[OF True] by (simp add: is_word_def re_digit_word)
    from 2(3) True have "x = take 6 ?s \<or> x \<in> set (findall U (Some (?s ! 5)) (drop 6 ?s))"
      by (simp del: take_Suc_Cons drop_Suc_Cons nth_Cons_numeral)
    then show ?thesis
    proof
      assume x: "x = take 6 ?s"
      have "?s = [] @ x @ drop 6 ?s" unfolding x by simp
      moreover have "\<not> is_word U (if ([]::pystr) = [] then prev else Some (last []))"
        using match_here_boundaries(1)[OF True] by simp
      moreover note match_here_boundaries(2)[OF True]
      ultimately show ?thesis by blast
    next
      assume "x \<in> set (findall U (Some (?s ! 5)) (drop 6 ?s))"
      from 2(1)[OF True this] obtain pre post where
        d: "drop 6 ?s = pre @ x @ post"
        and p: "\<not> is_word U (if pre = [] then Some (?s ! 5) else Some (last pre))"
        and q: "\<not> is_word U (first_char post)" by blast
      from p w2 have ne: "pre \<noteq> []" by (cases "pre = []") simp_all
      have "take 6 ?s @ drop 6 ?s = ?s" by (rule append_take_drop_id)
      with d have "?s = (take 6 ?s @ pre) @ x @ post" by simp
      moreover have "\<not> is_word U (if take 6 ?s @ pre = [] then prev else Some (last (take 6 ?s @ pre)))"
        using p ne by simp
      ultimately show ?thesis using q by blast
    qed
  next
    case False
    with 2(3) have "x \<in> set (findall U (Some c) cs)" by simp
    from 2(2)[OF False this] obtain pre post where
      d: "cs = pre @ x @ post"
      and p: "\<not> is_word U (if pre = [] then Some c else Some (last pre))"
      and q: "\<not> is_word U (first_char post)" by blast
    have "c # cs = (c # pre) @ x @ post" using d by simp
    moreover have "\<not> is_word U (if c # pre = [] then prev else Some (last (c # pre)))"
      using p by (cases "pre = []") simp_all
    ultimately show ?thesis using q by blast
  qed
qed

lemma findall_delimited:
  assumes "x \<in> set (findall U None t)"
  shows "delimited_in U x t"
proof -
  from findall_occurs[OF assms] obtain pre post where
    t: "t = pre @ x @ post"
    and p: "\<not> is_word U (if pre = [] then None else Some (last pre))"
    and q: "\<not> is_word U (first_char post)" by blast
  have "pre = [] \<or> (\<not> re_word U (last pre) \<and> \<not> re_digit U (last pre))"
    using p re_digit_word[of U "last pre"] by (cases "pre = []") (auto simp: is_word_def)
  moreover have "post = [] \<or> (\<not> re_word U (hd post) \<and> \<not> re_digit U (hd post))"
    using q re_digit_word[of U "hd post"] by (cases post) (auto simp: is_word_def first_char_def)
  ultimately show ?thesis using t unfolding delimited_in_def by blast
qed

lemma codes_wellformed: "wellformed_codes U t (sort (remdups (findall U None t)))"
proof -
  have "length x = 6 \<and> (\<forall>c \<in> set x. re_digit U c \<and> (c < 128 \<longrightarrow> ascii_digit c)) \<and>
        delimited_in U x t"
    if "x \<in> set (findall U None t)" for x
    using findall_elems[OF that] findall_delimited[OF that]
    by (auto simp: list_all_iff re_digit_ascii)
  then show ?thesis
    by (simp add: wellformed_codes_def)
qed

lemma extract_stock_scanned:
  "extract_stock_symbols U parameters step_content =
     sort (remdups (findall U None
       (scanned_text (param_value parameters stock_symbols_key) step_content)))"
  by (simp add: extract_stock_symbols_def scanned_text_def value_strings_def
        split: option.splits pyval.splits)

lemma extract_fund_scanned:
  "extract_fund_symbols U parameters step_content =
     sort (remdups (findall U None
       (scanned_text (param_value parameters fund_symbols_key) step_content)))"
  by (simp add: extract_fund_symbols_def scanned_text_def value_strings_def
        split: option.splits pyval.splits)

lemma sublist_join: "x \<in> set xs \<Longrightarrow> sublist x (join sep xs)"
proof (induction sep xs rule: join.induct)
  case (1 sep)
  then show ?case by simp
next
  case (2 sep y)
  then show ?case by simp
next
  case (3 sep a b bs)
  show ?case
  proof (cases "x = a")
    case True
    then show ?thesis by simp
  next
    case False
    with 3 have "sublist x (join sep (b # bs))" by simp
    then obtain ps ss where "join sep (b # bs) = ps @ x @ ss"
      by (auto simp: sublist_def)
    then have "join sep (a # b # bs) = (a @ sep @ ps) @ x @ ss" by simp
    then show ?thesis unfolding sublist_def by blast
  qed
qed

lemma map_of_None_iff: "(map_of registry k = None) = (k \<notin> set (get_available_tools registry))"
  by (simp add: get_available_tools_def map_of_eq_None_iff)






















lemma join_snoc_empty: "xs \<noteq> [] \<Longrightarrow> join sep (xs @ [[]]) = join sep xs @ sep"
  by (induction sep xs rule: join.induct) simp_all

lemma join_snoc_suffix: "\<exists>p. join sep (xs @ [y]) = p @ y"
proof (induction sep xs rule: join.induct)
  case (1 sep)
  show ?case by simp
next
  case (2 sep x)
  show ?case by simp
next
  case (3 sep a b bs)
  then obtain p where "join sep ((b # bs) @ [y]) = p @ y" by blast
  then have "join sep ((a # b # bs) @ [y]) = (a @ sep @ p) @ y" by simp
  then show ?case by blast
qed

lemma join_snoc_nonempty: "y \<noteq> [] \<Longrightarrow> join sep (xs @ [y]) \<noteq> []"
  using join_snoc_suffix[of sep xs y] by auto

lemma sections_filter:
  "concat (map (\<lambda>k. case st k of None \<Rightarrow> [] | Some b \<Rightarrow> [g k b]) ks) =
   map (\<lambda>k. g k (the (st k))) (filter (\<lambda>k. st k \<noteq> None) ks)"
  by (induction ks) (auto split: option.splits)

lemma raw_reports_present: "raw_reports_of r = present_sections r"
  by (simp add: raw_reports_of_def present_sections_def sections_filter split: option.splits)

lemma decision_reasoning_block:
  "decision_reasoning_of r = (if has_reasoning r then reasoning_block r else [])"
  by (auto simp: decision_reasoning_of_def has_reasoning_def reasoning_block_def
        split: option.splits)

lemma reasoning_block_nonempty: "reasoning_block r \<noteq> []"
  by (simp add: reasoning_block_def decision_heading_def)

lemma full_raw_report_cases:
  "full_raw_report r =
     (if has_reasoning r then join blank_line (present_sections r @ [reasoning_block r])
      else if present_sections r \<noteq> [] then join blank_line (present_sections r) @ blank_line
      else [])"
  by (simp add: full_raw_report_def raw_reports_present decision_reasoning_block join_snoc_empty)

lemma full_raw_report_empty:
  "(full_raw_report r = []) = (present_sections r = [] \<and> \<not> has_reasoning r)"
  unfolding full_raw_report_cases
  by (simp add: join_snoc_nonempty reasoning_block_nonempty blank_line_def)

text \<open>
  The scan consults the tables only at the characters of the text: whatever the rest
  of the database holds, six fullwidth digits that are decimal digits are a code.
\<close>

lemma fullwidth_digits_any_db:
  assumes "uni_decimal U 65297" "uni_decimal U 65298" "uni_decimal U 65299"
    "uni_decimal U 65300" "uni_decimal U 65301" "uni_decimal U 65302"
  shows "extract_stock_symbols U NotADict [65297, 65298, 65299, 65300, 65301, 65302] =
           [[65297, 65298, 65299, 65300, 65301, 65302]]"
  using assms
  by (simp add: match_here_def boundary_def is_word_def first_char_def re_word_def
        re_digit_def extract_stock_symbols_def param_value_def)

section \<open>The claims\<close>

text \<open>
  Claim C1, as amended. For every parameters object and step text, each extractor
  returns a list that is pairwise distinct and sorted ascending, whose elements have
  exactly six characters, each of the class \<open>\d\<close> (an ASCII digit whenever it is an ASCII
  character), and stand in the scanned text between characters that are neither word
  characters nor digits, or at its ends.
\<close>

theorem extract_codes_wellformed:
  "wellformed_codes U (scanned_text (param_value parameters stock_symbols_key) step_content)
     (extract_stock_symbols U parameters step_content) \<and>
   wellformed_codes U (scanned_text (param_value parameters fund_symbols_key) step_content)
     (extract_fund_symbols U parameters step_content)"
  by (simp add: extract_stock_scanned extract_fund_scanned codes_wellformed)

theorem extract_codes_wellformed_witness:
  "extract_stock_symbols db_excerpt NotADict
       (ascii ''600036 and 600000, 1234567 x600001 600000'') =
     [ascii ''600000'', ascii ''600036''] \<and>
   wellformed_codes db_excerpt
     (ascii ''600036 and 600000, 1234567 x600001 600000'')
     [ascii ''600000'', ascii ''600036'']"
proof -
  let ?s = "ascii ''600036 and 600000, 1234567 x600001 600000''"
  have e: "extract_stock_symbols db_excerpt NotADict ?s = [ascii ''600000'', ascii ''600036'']"
    by (simp add: re_simps extract_simps)
  have t: "scanned_text (param_value NotADict stock_symbols_key) ?s = ?s"
    by (simp add: scanned_text_def param_value_def ascii_def)
  from extract_codes_wellformed [of db_excerpt NotADict ?s] e t show ?thesis by simp
qed

text \<open>
  C1 as stated asks for ASCII digits. The class \<open>\d\<close> of a \<open>str\<close> pattern holds every
  Unicode decimal digit: the step text of the six fullwidth digits U+FF11 to U+FF16
  is returned as a code.
\<close>

theorem extract_fullwidth_digits:
  "extract_stock_symbols db_excerpt NotADict [65297, 65298, 65299, 65300, 65301, 65302] =
     [[65297, 65298, 65299, 65300, 65301, 65302]] \<and>
   extract_fund_symbols db_excerpt NotADict [65297, 65298, 65299, 65300, 65301, 65302] =
     [[65297, 65298, 65299, 65300, 65301, 65302]] \<and>
   \<not> list_all ascii_digit [65297, 65298, 65299, 65300, 65301, 65302]"
  by (simp add: re_simps extract_simps)

text \<open>
  Claim C2, as amended. When \<open>parameters\<close> is a dict that has the key and the value is not
  the empty list, the extractor returns the codes found in that value alone: the step
  text is not consulted, also when the value holds no code and the result is empty.
  When the key is missing or its value is the empty list, the extractor returns the
  codes found in the step text alone. The two sources are never merged.
\<close>

theorem parameter_value_takes_priority:
  "(param_value parameters stock_symbols_key = Some v \<and> v \<noteq> PyList [] \<longrightarrow>
      extract_stock_symbols U parameters step_content =
        sort (remdups (findall U None (join (ascii '','') (value_strings v))))) \<and>
   (param_value parameters fund_symbols_key = Some v \<and> v \<noteq> PyList [] \<longrightarrow>
      extract_fund_symbols U parameters step_content =
        sort (remdups (findall U None (join (ascii '','') (value_strings v))))) \<and>
   (param_value parameters stock_symbols_key = None \<or>
    param_value parameters stock_symbols_key = Some (PyList []) \<longrightarrow>
      extract_stock_symbols U parameters step_content =
        sort (remdups (findall U None step_content))) \<and>
   (param_value parameters fund_symbols_key = None \<or>
    param_value parameters fund_symbols_key = Some (PyList []) \<longrightarrow>
      extract_fund_symbols U parameters step_content =
        sort (remdups (findall U None step_content)))"
proof -
  have "param_value parameters stock_symbols_key = Some v \<and> v \<noteq> PyList [] \<longrightarrow>
      extract_stock_symbols U parameters step_content =
        sort (remdups (findall U None (join (ascii '','') (value_strings v))))"
    by (cases v) (simp_all add: extract_stock_symbols_def value_strings_def)
  moreover have "param_value parameters fund_symbols_key = Some v \<and> v \<noteq> PyList [] \<longrightarrow>
      extract_fund_symbols U parameters step_content =
        sort (remdups (findall U None (join (ascii '','') (value_strings v))))"
    by (cases v) (simp_all add: extract_fund_symbols_def value_strings_def)
  moreover have "param_value parameters stock_symbols_key = None \<or>
    param_value parameters stock_symbols_key = Some (PyList []) \<longrightarrow>
      extract_stock_symbols U parameters step_content =
        sort (remdups (findall U None step_content))"
    by (cases "step_content = []") (auto simp: extract_stock_symbols_def)
  moreover have "param_value parameters fund_symbols_key = None \<or>
    param_value parameters fund_symbols_key = Some (PyList []) \<longrightarrow>
      extract_fund_symbols U parameters step_content =
        sort (remdups (findall U None step_content))"
    by (cases "step_content = []") (auto simp: extract_fund_symbols_def)
  ultimately show ?thesis by blast
qed

theorem parameter_value_takes_priority_witness:
  "param_value (Dict [stock_symbols_key \<mapsto> PyList [ascii ''60000'', ascii ''sh600036'']])
       stock_symbols_key = Some (PyList [ascii ''60000'', ascii ''sh600036'']) \<and>
   PyList [ascii ''60000'', ascii ''sh600036''] \<noteq> PyList [] \<and>
   extract_stock_symbols db_excerpt
       (Dict [stock_symbols_key \<mapsto> PyList [ascii ''60000'', ascii ''sh600036'']])
       (ascii ''600519'') = []"
proof -
  let ?v = "PyList [ascii ''60000'', ascii ''sh600036'']"
  let ?p = "Dict [stock_symbols_key \<mapsto> ?v]"
  have h: "param_value ?p stock_symbols_key = Some ?v" by (simp add: param_value_def)
  have n: "?v \<noteq> PyList []" by simp
  have r: "sort (remdups (findall db_excerpt None (join (ascii '','') (value_strings ?v)))) = []"
    by (simp add: re_simps value_strings_def ascii_def)
  from parameter_value_takes_priority [of ?p ?v db_excerpt "ascii ''600519''"] h n r
  show ?thesis by simp
qed

text \<open>
  C2 as stated covers every value under the key. With the empty list as the value
  the candidates are empty and the step text is scanned.
\<close>

theorem empty_list_falls_back:
  "param_value (Dict [stock_symbols_key \<mapsto> PyList []]) stock_symbols_key = Some (PyList []) \<and>
   extract_stock_symbols db_excerpt (Dict [stock_symbols_key \<mapsto> PyList []]) (ascii ''600000'') =
     [ascii ''600000''] \<and>
   param_value (Dict [fund_symbols_key \<mapsto> PyList []]) fund_symbols_key = Some (PyList []) \<and>
   extract_fund_symbols db_excerpt (Dict [fund_symbols_key \<mapsto> PyList []]) (ascii ''600000'') =
     [ascii ''600000'']"
  by (simp add: re_simps extract_simps)

text \<open>
  Claim C3. For a tool name that is not in the registry, \<open>execute\<close> raises nothing and
  returns a message that contains every registered display name; the trace is empty,
  so no handler was called.
\<close>

theorem execute_unknown_tool:
  assumes "tool_name \<notin> set (get_available_tools registry)"
  shows "fst (execute registry tool_name parameters step_content progress_callback) = [] \<and>
         (\<exists>msg. snd (execute registry tool_name parameters step_content progress_callback) = Inr msg \<and>
                (\<forall>name \<in> set (get_available_tools registry). sublist name msg))"
proof -
  let ?names = "join (ascii '', '') (get_available_tools registry)"
  let ?msg = "unknown_tool_prefix @ tool_name @ unknown_tool_middle @ ?names"
  from assms have "map_of registry tool_name = None" by (simp add: map_of_None_iff)
  then have e: "execute registry tool_name parameters step_content progress_callback =
                ([], Inr ?msg)"
    by (simp add: execute_def)
  have "sublist name ?msg" if "name \<in> set (get_available_tools registry)" for name
  proof -
    from that have "sublist name ?names" by (rule sublist_join)
    then obtain ps ss where "?names = ps @ name @ ss" by (auto simp: sublist_def)
    then have "?msg = (unknown_tool_prefix @ tool_name @ unknown_tool_middle @ ps) @ name @ ss"
      by simp
    then show ?thesis unfolding sublist_def by blast
  qed
  with e show ?thesis by simp
qed

theorem execute_unknown_tool_witness:
  "ascii ''search'' \<notin> set (get_available_tools (tools db_excerpt sample_env)) \<and>
   fst (execute (tools db_excerpt sample_env) (ascii ''search'')
          (Dict [stock_symbols_key \<mapsto> PyScalar (ascii ''600000'')]) (ascii ''600036'') None) = [] \<and>
   (\<exists>msg. snd (execute (tools db_excerpt sample_env) (ascii ''search'')
          (Dict [stock_symbols_key \<mapsto> PyScalar (ascii ''600000'')]) (ascii ''600036'') None) = Inr msg \<and>
          sublist stock_tool_name msg \<and> sublist fund_tool_name msg)"
proof -
  have h: "ascii ''search'' \<notin> set (get_available_tools (tools db_excerpt sample_env))"
    by (simp add: get_available_tools_def tools_def stock_tool_name_def fund_tool_name_def ascii_def)
  have n: "set (get_available_tools (tools db_excerpt sample_env)) = {stock_tool_name, fund_tool_name}"
    by (simp add: get_available_tools_def tools_def)
  from execute_unknown_tool [OF h] n h show ?thesis by auto
qed




text \<open>
  Claim C5. When the extraction yields no code, each handler returns its fixed message
  with an empty trace: no analysis function and no callback was called.
\<close>

theorem no_identifiers_no_calls:
  "(extract_stock_symbols U parameters step_content = [] \<longrightarrow>
      execute_stock_analysis_tool U E parameters step_content progress_callback =
        ([], Inr no_stock_symbols)) \<and>
   (extract_fund_symbols U parameters step_content = [] \<longrightarrow>
      execute_fund_analysis_tool U E parameters step_content progress_callback =
        ([], Inr no_fund_symbols))"
  by (simp add: execute_stock_analysis_tool_def execute_fund_analysis_tool_def)

theorem no_identifiers_no_calls_witness:
  "extract_stock_symbols db_excerpt NotADict (ascii ''code 12345, 1234567'') = [] \<and>
   execute_stock_analysis_tool db_excerpt sample_env NotADict (ascii ''code 12345, 1234567'')
       (Some quiet_callback) = ([], Inr no_stock_symbols) \<and>
   extract_fund_symbols db_excerpt NotADict (ascii ''code 12345, 1234567'') = [] \<and>
   execute_fund_analysis_tool db_excerpt sample_env NotADict (ascii ''code 12345, 1234567'')
       (Some quiet_callback) = ([], Inr no_fund_symbols)"
proof -
  have s: "extract_stock_symbols db_excerpt NotADict (ascii ''code 12345, 1234567'') = []"
    by (simp add: re_simps extract_simps)
  have f: "extract_fund_symbols db_excerpt NotADict (ascii ''code 12345, 1234567'') = []"
    by (simp add: re_simps extract_simps)
  from no_identifiers_no_calls [of db_excerpt NotADict "ascii ''code 12345, 1234567''"
      sample_env "Some quiet_callback"] s f
  show ?thesis by blast
qed







text \<open>
  Claim C8 fails on a parameter that the docstring does not describe: the function
  \<open>f(x)\<close> with a summary line and no argument section gets the type placeholder and
  the default placeholder, but the empty string as the description of \<open>x\<close>, not the
  placeholder for no description.
\<close>

theorem undocumented_parameter_description:
  "get_tool_metadata undocumented_function =
     Inr \<lparr>meta_name = ascii ''f'', meta_description = ascii ''Summary.'',
          meta_parameters =
            [\<lparr>info_name = ascii ''x'', info_type = unspecified,
              info_default = PyStr required, info_description = []\<rparr>]\<rparr> \<and>
   [] \<noteq> no_description"
  by (simp add: get_tool_metadata_def undocumented_function_def param_type_of_def
        default_value_of_def or_else_def no_description_def ascii_def)

text \<open>
  Claim C9, as amended. The body of a successful stock fragment: with a reasoning, the
  present sections in their fixed order and the reasoning block, joined with a blank
  line; without a reasoning but with some section, the present sections joined with a
  blank line and one more blank line behind them; otherwise the placeholder for no
  result. The placeholder is used exactly when no section and no reasoning is present.
\<close>

theorem stock_fragment_body:
  "stock_fragment code (Inr r) =
     stock_heading @ code @ [10] @
       (if has_reasoning r then join blank_line (present_sections r @ [reasoning_block r])
        else if present_sections r \<noteq> [] then join blank_line (present_sections r) @ blank_line
        else no_result) \<and>
   (full_raw_report r = []) = (present_sections r = [] \<and> \<not> has_reasoning r)"
proof -
  have "stock_fragment code (Inr r) =
     stock_heading @ code @ [10] @ (if full_raw_report r \<noteq> [] then full_raw_report r else no_result)"
    by (simp add: stock_fragment_def)
  also have "(if full_raw_report r \<noteq> [] then full_raw_report r else no_result) =
       (if has_reasoning r then join blank_line (present_sections r @ [reasoning_block r])
        else if present_sections r \<noteq> [] then join blank_line (present_sections r) @ blank_line
        else no_result)"
    using full_raw_report_empty[of r] by (auto simp: full_raw_report_cases)
  finally show ?thesis using full_raw_report_empty[of r] by simp
qed

text \<open>
  C9 as stated leaves no separator for an absent part. The reasoning, when absent, is
  joined as the empty string: a result with a market report and no decision gets a
  body that ends with the separator.
\<close>

theorem absent_reasoning_trailing_separator:
  "\<not> has_reasoning \<lparr>state = Some [ascii ''market_report'' \<mapsto> ascii ''up''], decision = None\<rparr> \<and>
   join blank_line
     (present_sections \<lparr>state = Some [ascii ''market_report'' \<mapsto> ascii ''up''], decision = None\<rparr>) =
     ascii ''#### Market Report'' @ [10] @ ascii ''up'' \<and>
   stock_fragment (ascii ''600036'')
     (Inr \<lparr>state = Some [ascii ''market_report'' \<mapsto> ascii ''up''], decision = None\<rparr>) =
     stock_heading @ ascii ''600036'' @ [10] @
       ascii ''#### Market Report'' @ [10] @ ascii ''up'' @ [10, 10]"
  by (simp add: has_reasoning_def present_sections_def stock_fragment_def full_raw_report_def
        raw_reports_of_def decision_reasoning_of_def report_types_def report_section_def
        replace_char_def blank_line_def ascii_def)

text \<open>
  Claim C10. The two extractors agree up to the key: on parameters \<open>p\<close> and \<open>p'\<close> where \<open>p\<close>
  has under \<open>stock_symbols\<close> what \<open>p'\<close> has under \<open>fund_symbols\<close> (the same value, or both
  nothing), they return the same list for every step text; in particular on the same
  parameters when these hold neither key or are no dict.
\<close>

theorem extract_stock_fund_equiv:
  "(param_value p stock_symbols_key = param_value p' fund_symbols_key \<longrightarrow>
      extract_stock_symbols U p step_content = extract_fund_symbols U p' step_content) \<and>
   (param_value p stock_symbols_key = None \<and> param_value p fund_symbols_key = None \<longrightarrow>
      extract_stock_symbols U p step_content = extract_fund_symbols U p step_content) \<and>
   extract_stock_symbols U NotADict step_content = extract_fund_symbols U NotADict step_content"
  by (simp add: extract_stock_symbols_def extract_fund_symbols_def param_value_def)

theorem extract_stock_fund_equiv_witness:
  "param_value (Dict [stock_symbols_key \<mapsto> PyList [ascii ''600036'', ascii ''600000'']])
       stock_symbols_key =
   param_value (Dict [fund_symbols_key \<mapsto> PyList [ascii ''600036'', ascii ''600000'']])
       fund_symbols_key \<and>
   extract_fund_symbols db_excerpt
       (Dict [fund_symbols_key \<mapsto> PyList [ascii ''600036'', ascii ''600000'']]) (ascii ''x'') =
     [ascii ''600000'', ascii ''600036''] \<and>
   extract_stock_symbols db_excerpt
       (Dict [stock_symbols_key \<mapsto> PyList [ascii ''600036'', ascii ''600000'']]) (ascii ''x'') =
     [ascii ''600000'', ascii ''600036'']"
proof -
  let ?p = "Dict [stock_symbols_key \<mapsto> PyList [ascii ''600036'', ascii ''600000'']]"
  let ?p' = "Dict [fund_symbols_key \<mapsto> PyList [ascii ''600036'', ascii ''600000'']]"
  have h: "param_value ?p stock_symbols_key = param_value ?p' fund_symbols_key"
    by (simp add: param_value_def)
  have f: "extract_fund_symbols db_excerpt ?p' (ascii ''x'') = [ascii ''600000'', ascii ''600036'']"
    by (simp add: re_simps extract_simps)
  from extract_stock_fund_equiv [of ?p ?p' db_excerpt "ascii ''x''"] h
  have "extract_stock_symbols db_excerpt ?p (ascii ''x'') =
        extract_fund_symbols db_excerpt ?p' (ascii ''x'')" by blast
  with h f show ?thesis by simp
qed

end
